theory Spec2Isabelle
  imports Main "HOL-Library.Word"
begin

unbundle bit_operations_syntax

section \<open>Python primitives used by the data store\<close>

text \<open>
  Python integers are unbounded, so they are \<open>int\<close>; on \<open>int\<close> the operators
  \<open>AND\<close>, \<open>XOR\<close> and \<open>drop_bit\<close> are Python's \<open>&\<close>, \<open>^\<close> and \<open>>>\<close>
  (two's complement, arithmetic shift).  Text is a list of 8-bit characters, read as the
  code points 0 to 255.
\<close>

text \<open>The digits of \<open>f'{x:02X}'\<close> and of \<open>str(x)\<close>.\<close>

function upper_hex :: "nat \<Rightarrow> string" where
  "upper_hex n =
     (if n < 16 then [''0123456789ABCDEF'' ! n]
      else upper_hex (n div 16) @ [''0123456789ABCDEF'' ! (n mod 16)])"
  by pat_completeness auto
termination
  by (relation "measure id") auto

declare upper_hex.simps [simp del]

function decimal :: "nat \<Rightarrow> string" where
  "decimal n =
     (if n < 10 then [''0123456789'' ! n]
      else decimal (n div 10) @ [''0123456789'' ! (n mod 10)])"
  by pat_completeness auto
termination
  by (relation "measure id") auto

declare decimal.simps [simp del]

text \<open>\<open>str(x)\<close> for an integer.\<close>

definition str_int :: "int \<Rightarrow> string" where
  "str_int x = (if x < 0 then CHR ''-'' # decimal (nat (- x)) else decimal (nat x))"

text \<open>
  \<open>f'{x:02X}'\<close>: upper-case hexadecimal, zero-padded to width 2.  The sign counts
  towards the width, so a negative number is never padded.
\<close>

definition format_02X :: "int \<Rightarrow> string" where
  "format_02X x =
     (if x < 0 then CHR ''-'' # upper_hex (nat (- x))
      else if x < 16 then CHR ''0'' # upper_hex (nat x)
      else upper_hex (nat x))"

text \<open>\<open>' '.join(parts)\<close>.\<close>

fun join_space :: "string list \<Rightarrow> string" where
  "join_space [] = []"
| "join_space [s] = s"
| "join_space (s # t # parts) = s @ CHR '' '' # join_space (t # parts)"

section \<open>calculate_crc\<close>

text \<open>One pass of the inner loop body: \<open>if crc & 0x0001: crc = (crc >> 1) ^ 0xA001 else: crc >>= 1\<close>.\<close>

definition crc_shift :: "int \<Rightarrow> int" where
  "crc_shift crc =
     (if crc AND 0x0001 \<noteq> 0 then drop_bit 1 crc XOR 0xA001 else drop_bit 1 crc)"

text \<open>\<open>for _ in range(n)\<close> around that body.\<close>

fun crc_bits :: "nat \<Rightarrow> int \<Rightarrow> int" where
  "crc_bits 0 crc = crc"
| "crc_bits (Suc n) crc = crc_bits n (crc_shift crc)"

text \<open>The outer loop \<open>for x in data\<close>, the accumulator passed along.\<close>

fun crc_loop :: "int \<Rightarrow> int list \<Rightarrow> int" where
  "crc_loop crc [] = crc"
| "crc_loop crc (x # data) = crc_loop (crc_bits 8 (crc XOR x)) data"

definition calculate_crc :: "int list \<Rightarrow> int" where
  "calculate_crc data = crc_loop 0xFFFF data"

section \<open>format_modbus_response\<close>

text \<open>The loop \<open>for value in values: payload.extend([(value >> 8) & 0xFF, value & 0xFF])\<close>.\<close>

fun extend_registers :: "int list \<Rightarrow> int list \<Rightarrow> int list" where
  "extend_registers payload [] = payload"
| "extend_registers payload (v # values) =
     extend_registers (payload @ [drop_bit 8 v AND 0xFF, v AND 0xFF]) values"

text \<open>The list \<open>payload\<close> as it stands before it is rendered.\<close>

definition response_payload :: "int \<Rightarrow> int \<Rightarrow> int list \<Rightarrow> int list" where
  "response_payload slave_address function_code values =
     (let byte_count = int (length values) * 2;
          payload = [slave_address, function_code, byte_count];
          payload = extend_registers payload values;
          crc = calculate_crc payload
      in payload @ [crc AND 0xFF, drop_bit 8 crc AND 0xFF])"

definition format_modbus_response :: "int \<Rightarrow> int \<Rightarrow> int list \<Rightarrow> string" where
  "format_modbus_response slave_address function_code values =
     join_space (map format_02X (response_payload slave_address function_code values))"

section \<open>Text helpers of validate_file_response\<close>

text \<open>
  \<open>str.isspace\<close> on the code points 0 to 255: tab, line feed, vertical tab, form feed,
  carriage return, the four separators 0x1C to 0x1F, space, next line (0x85) and the
  no-break space (0xA0).
\<close>

definition isspace :: "char \<Rightarrow> bool" where
  "isspace c = ((of_char c :: nat) \<in> {9, 10, 11, 12, 13, 28, 29, 30, 31, 32, 133, 160})"

text \<open>\<open>s.strip()\<close>.\<close>

definition strip :: "string \<Rightarrow> string" where
  "strip s = rev (dropWhile isspace (rev (dropWhile isspace s)))"

text \<open>\<open>s.startswith(p)\<close>.\<close>

definition startswith :: "string \<Rightarrow> string \<Rightarrow> bool" where
  "startswith s p = (take (length p) s = p)"

text \<open>
  \<open>int(s, 16)\<close>, \<open>None\<close> standing for the \<open>ValueError\<close>.  The interpreter strips
  white space, reads an optional sign, an optional \<open>0x\<close> or \<open>0X\<close> with at most one
  underscore behind it, and then hexadecimal digits in either case, where single
  underscores may stand between two digits; anything else is an invalid literal.
\<close>

definition hex_value :: "char \<Rightarrow> int option" where
  "hex_value c =
     (let n = (of_char c :: nat) in
      if 48 \<le> n \<and> n \<le> 57 then Some (int n - 48)
      else if 97 \<le> n \<and> n \<le> 102 then Some (int n - 87)
      else if 65 \<le> n \<and> n \<le> 70 then Some (int n - 55)
      else None)"

fun hex_digits :: "int \<Rightarrow> string \<Rightarrow> int option" where
  "hex_digits acc [] = Some acc"
| "hex_digits acc (c # cs) =
     (if c = CHR ''_'' then
        (case cs of
           [] \<Rightarrow> None
         | d # _ \<Rightarrow> if d = CHR ''_'' then None else hex_digits acc cs)
      else
        (case hex_value c of
           None \<Rightarrow> None
         | Some v \<Rightarrow> hex_digits (16 * acc + v) cs))"

definition hex_literal :: "string \<Rightarrow> int option" where
  "hex_literal t =
     (let body =
        (if startswith t ''0x'' \<or> startswith t ''0X'' then
           (let r = drop 2 t in if startswith r ''_'' then drop 1 r else r)
         else t)
      in if body = [] \<or> startswith body ''_'' then None else hex_digits 0 body)"

definition int_16 :: "string \<Rightarrow> int option" where
  "int_16 s =
     (case strip s of
        [] \<Rightarrow> None
      | c # r \<Rightarrow>
          if c = CHR ''-'' then map_option uminus (hex_literal r)
          else if c = CHR ''+'' then hex_literal r
          else hex_literal (c # r))"

text \<open>
  \<open>os.path.join(a, b)\<close> on a POSIX system for a second part that is not absolute
  (\<open>str\<close> of an integer never starts with a slash).
\<close>

definition path_join :: "string \<Rightarrow> string \<Rightarrow> string" where
  "path_join a b = (if a = [] \<or> last a = CHR ''/'' then a @ b else a @ CHR ''/'' # b)"

text \<open>\<open>xs[:n]\<close>: a negative bound counts from the end.\<close>

definition slice_to :: "'a list \<Rightarrow> int \<Rightarrow> 'a list" where
  "slice_to xs n = (if 0 \<le> n then take (nat n) xs else take (length xs - nat (- n)) xs)"

section \<open>The data store\<close>

text \<open>
  The response directory on disk: a path either names a text file, given by its lines
  as \<open>for line in f\<close> yields them, or names nothing, in which case \<open>open\<close> raises
  \<open>FileNotFoundError\<close>.
\<close>

type_synonym filesystem = "string \<rightharpoonup> string list"

record datastore =
  response_dir :: string
  dummy_mode :: bool

text \<open>
  What a call leaves behind besides its return value: the records handed to the logger,
  each with its level and the f-string it was built from, and the calls of the inherited
  \<open>getValues\<close>.
\<close>

datatype level = INFO | WARNING | ERROR

datatype message =
    ReceivedRequest int int int
      \<comment> \<open>\<open>Received request: Function Code: {fx}, Address: {address}, Count: {count}\<close>\<close>
  | InsufficientData int int nat
      \<comment> \<open>\<open>Insufficient data for register {register_address}. Requested {count}, but only {len(hex_values)} available.\<close>\<close>
  | RequestForRegister int int nat
      \<comment> \<open>\<open>Request for register {register_address}: Requested {count} registers, File contains {len(hex_values)} values\<close>\<close>
  | NoResponseFile int
      \<comment> \<open>\<open>No response file found for register {register_address}\<close>\<close>
  | ErrorParsingFile string string
      \<comment> \<open>\<open>Error parsing file {file_path}: {e}\<close>, the error given by the literal it rejects\<close>
  | FullResponse string
      \<comment> \<open>\<open>Full Modbus Response (Hex): {full_response}\<close>\<close>
  | FullResponseNotSent string
      \<comment> \<open>\<open>Full Modbus Response (not sent) (Hex): {full_response}\<close>\<close>

datatype event = Log level message | SuperGetValues int int int

text \<open>The condition of the list comprehension: \<open>line.strip().startswith('0x')\<close>.\<close>

definition is_hex_line :: "string \<Rightarrow> bool" where
  "is_hex_line line = startswith (strip line) ''0x''"

text \<open>
  The list comprehension of \<open>validate_file_response\<close>: the lines in file order, each
  tested by the condition and, if kept, parsed by \<open>int(line.strip(), 16)\<close>.
  \<open>Inl\<close> is the \<open>ValueError\<close> of the first kept line that does not parse, given by
  the text it rejects.
\<close>

fun hex_values :: "string list \<Rightarrow> string + int list" where
  "hex_values [] = Inr []"
| "hex_values (line # rest) =
     (if is_hex_line line then
        (case int_16 (strip line) of
           None \<Rightarrow> Inl (strip line)
         | Some v \<Rightarrow>
             (case hex_values rest of
                Inl e \<Rightarrow> Inl e
              | Inr vs \<Rightarrow> Inr (v # vs)))
      else hex_values rest)"

definition validate_file_response ::
  "datastore \<Rightarrow> filesystem \<Rightarrow> int \<Rightarrow> int \<Rightarrow> event list \<times> int list option" where
  "validate_file_response self fs register_address count =
     (let file_path = path_join (response_dir self) (str_int register_address) in
      case fs file_path of
        None \<Rightarrow> ([Log WARNING (NoResponseFile register_address)], None)
      | Some lines \<Rightarrow>
          (case hex_values lines of
             Inl e \<Rightarrow> ([Log ERROR (ErrorParsingFile file_path e)], None)
           | Inr vs \<Rightarrow>
               if int (length vs) < count then
                 ([Log WARNING (InsufficientData register_address count (length vs))], None)
               else
                 ([Log INFO (RequestForRegister register_address count (length vs))],
                  Some (slice_to vs count))))"

text \<open>
  What \<open>getValues\<close> returns: \<open>None\<close>, the list of register values, or whatever the
  inherited \<open>getValues\<close> returned.
\<close>

datatype 'r returned = ReturnNone | ReturnValues "int list" | ReturnSuper 'r

text \<open>
  \<open>getValues\<close>; the inherited method \<open>super().getValues\<close> is the parameter
  \<open>super_getValues\<close>.
\<close>

definition getValues ::
  "(int \<Rightarrow> int \<Rightarrow> int \<Rightarrow> 'r) \<Rightarrow> datastore \<Rightarrow> filesystem \<Rightarrow> int \<Rightarrow> int \<Rightarrow> int
     \<Rightarrow> event list \<times> 'r returned" where
  "getValues super_getValues self fs fx address count =
     (let received = [Log INFO (ReceivedRequest fx address count)] in
      if fx = 3 \<or> fx = 4 then
        (case validate_file_response self fs address count of
           (looked_up, Some values) \<Rightarrow>
             (let full_response = format_modbus_response 1 fx values in
              if \<not> dummy_mode self then
                (received @ looked_up @ [Log INFO (FullResponse full_response)],
                 ReturnValues values)
              else
                (received @ looked_up @ [Log INFO (FullResponseNotSent full_response)],
                 ReturnNone))
         | (looked_up, None) \<Rightarrow> (received @ looked_up, ReturnNone))
      else
        (received @ [SuperGetValues fx address count],
         ReturnSuper (super_getValues fx address count)))"

section \<open>A response directory to run the data store on\<close>

text \<open>
  Register 40002 holds the four values 10, 20, 30 and 40; register 7 mixes values with a
  comment, an empty line and an upper-case prefix; register 5 has a line that is no
  hexadecimal number after a good one; register 6 holds a value beyond 16 bits.
\<close>

definition example_files :: filesystem where
  "example_files =
     [''responses/40002'' \<mapsto> [''0x0A'', ''0x14'', ''0x1E'', ''0x28''],
      ''responses/7'' \<mapsto> [''0xAB'', ''comment'', '''', ''0x10'', ''0X11''],
      ''responses/5'' \<mapsto> [''0x1'', ''0xZZ''],
      ''responses/6'' \<mapsto> [''0x12345'']]"

definition live_store :: datastore where
  "live_store = \<lparr>response_dir = ''responses'', dummy_mode = False\<rparr>"

definition dummy_store :: datastore where
  "dummy_store = \<lparr>response_dir = ''responses'', dummy_mode = True\<rparr>"

section \<open>The CRC of the specification\<close>

text \<open>
  The Modbus RTU CRC16 as the specification words it, on machine words: a 16-bit
  accumulator that starts at 0xFFFF; each byte is XORed into its low 8 bits; then,
  8 times, it is shifted right by one and XORed with 0xA001 when the bit shifted out
  was set.
\<close>

definition crc16_step :: "16 word \<Rightarrow> 16 word" where
  "crc16_step acc = (if bit acc 0 then drop_bit 1 acc XOR 0xA001 else drop_bit 1 acc)"

definition crc16_byte :: "16 word \<Rightarrow> 8 word \<Rightarrow> 16 word" where
  "crc16_byte acc b = (crc16_step ^^ 8) (acc XOR ucast b)"

definition crc16_reference :: "8 word list \<Rightarrow> 16 word" where
  "crc16_reference bytes = foldl crc16_byte 0xFFFF bytes"

section \<open>CRC: the code computes the reference CRC16\<close>

lemma low_bit_uint: "(uint (w :: 16 word) AND 1 \<noteq> 0) = bit w 0"
proof -
  have "bit (uint w) 0 = bit w 0"
    by (simp add: bit_uint_iff)
  then show ?thesis
    by (simp add: and_one_eq bit_0 mod_2_eq_odd)
qed

lemma uint_shift_right: "uint (drop_bit 1 (w :: 16 word)) = drop_bit 1 (uint w)"
proof -
  have "take_bit 16 (uint w) = uint w"
    using uint_lt2p[of w] by (simp add: take_bit_int_eq_self)
  then show ?thesis
    by (simp add: unsigned_drop_bit_eq)
qed

lemma crc_shift_uint: "crc_shift (uint w) = uint (crc16_step w)"
  unfolding crc16_step_def crc_shift_def
  using low_bit_uint[of w] uint_shift_right[of w] by (simp add: unsigned_xor_eq)

lemma crc_bits_uint: "crc_bits n (uint w) = uint ((crc16_step ^^ n) w)"
  by (induction n arbitrary: w) (simp_all add: crc_shift_uint funpow_swap1)

lemma xor_byte_uint: "uint (w :: 16 word) XOR uint (b :: 8 word) = uint (w XOR ucast b)"
  by (simp add: unsigned_xor_eq uint_up_ucast is_up)

lemma crc_loop_uint: "crc_loop (uint w) (map uint bs) = uint (foldl crc16_byte w bs)"
proof (induction bs arbitrary: w)
  case Nil
  show ?case by simp
next
  case (Cons b bs)
  have "crc_bits 8 (uint w XOR uint b) = uint (crc16_byte w b)"
    unfolding crc16_byte_def xor_byte_uint crc_bits_uint ..
  then show ?case
    using Cons.IH[of "crc16_byte w b"] by simp
qed

lemma calculate_crc_uint: "calculate_crc (map uint bs) = uint (crc16_reference bs)"
  using crc_loop_uint[of "0xFFFF" bs] by (simp add: calculate_crc_def crc16_reference_def)

section \<open>Facts about the frame builder\<close>

lemma low_byte: "(v :: int) AND 0xFF = v mod 256"
  using take_bit_eq_mask[of 8 v] by (simp add: take_bit_eq_mod mask_eq_exp_minus_1)

lemma high_byte: "drop_bit 8 (v :: int) AND 0xFF = v div 256 mod 256"
  by (simp add: low_byte drop_bit_eq_div)

lemma extend_registers_append:
  "extend_registers payload vs =
     payload @ concat (map (\<lambda>v. [v div 256 mod 256, v mod 256]) vs)"
  by (induction vs arbitrary: payload) (simp_all add: low_byte drop_bit_eq_div)

lemma byte_list_uint:
  "list_all (\<lambda>b. 0 \<le> b \<and> b < 256) data \<Longrightarrow> map uint (map (word_of_int :: int \<Rightarrow> 8 word) data) = data"
  by (induction data) (simp_all add: uint_word_of_int_eq take_bit_int_eq_self)

lemma calculate_crc_16bit:
  assumes "list_all (\<lambda>b. 0 \<le> b \<and> b < 256) data"
  shows "0 \<le> calculate_crc data \<and> calculate_crc data < 65536"
proof -
  have "calculate_crc data = uint (crc16_reference (map word_of_int data))"
    using calculate_crc_uint[of "map word_of_int data"] byte_list_uint[OF assms] by simp
  then show ?thesis
    using uint_lt2p[of "crc16_reference (map word_of_int data)"] by simp
qed

lemma register_bytes:
  "list_all (\<lambda>b. 0 \<le> b \<and> b < 256) (concat (map (\<lambda>v :: int. [v div 256 mod 256, v mod 256]) vs))"
  by (induction vs) simp_all

section \<open>Facts about the file lookup and the dispatcher\<close>

lemma hex_values_filter: "hex_values (filter is_hex_line ls) = hex_values ls"
  by (induction ls) (simp_all split: option.splits sum.splits)

lemma hex_values_Inr:
  "hex_values ls = Inr vs \<Longrightarrow> map Some vs = map (\<lambda>l. int_16 (strip l)) (filter is_hex_line ls)"
  by (induction ls arbitrary: vs) (auto split: option.splits sum.splits if_splits)

lemma hex_values_Inr_parsed:
  "hex_values ls = Inr vs \<Longrightarrow> l \<in> set ls \<Longrightarrow> is_hex_line l \<Longrightarrow> int_16 (strip l) \<noteq> None"
  by (induction ls arbitrary: vs) (auto split: option.splits sum.splits if_splits)

lemma hex_values_Inl:
  "hex_values ls = Inl e \<Longrightarrow> \<exists>l \<in> set ls. is_hex_line l \<and> int_16 (strip l) = None \<and> e = strip l"
  by (induction ls) (auto split: option.splits sum.splits if_splits)

lemma hex_values_bad_line:
  "l \<in> set ls \<Longrightarrow> is_hex_line l \<Longrightarrow> int_16 (strip l) = None \<Longrightarrow> \<exists>e. hex_values ls = Inl e"
  by (induction ls) (auto split: option.splits sum.splits if_splits)

lemma hex_values_all_parse:
  "\<forall>l \<in> set ls. is_hex_line l \<longrightarrow> int_16 (strip l) \<noteq> None \<Longrightarrow>
   hex_values ls = Inr (map (\<lambda>l. the (int_16 (strip l))) (filter is_hex_line ls))"
  by (induction ls) (auto split: option.splits sum.splits if_splits)

lemma hex_values_length:
  "hex_values ls = Inr vs \<Longrightarrow> length vs = length (filter is_hex_line ls)"
  using hex_values_Inr[of ls vs] by (metis length_map)

lemma lookup_missing:
  "fs (path_join (response_dir self) (str_int ra)) = None \<Longrightarrow>
   validate_file_response self fs ra count = ([Log WARNING (NoResponseFile ra)], None)"
  by (simp add: validate_file_response_def)

lemma lookup_parse_error:
  "fs (path_join (response_dir self) (str_int ra)) = Some ls \<Longrightarrow> hex_values ls = Inl e \<Longrightarrow>
   validate_file_response self fs ra count =
     ([Log ERROR (ErrorParsingFile (path_join (response_dir self) (str_int ra)) e)], None)"
  by (simp add: validate_file_response_def)

lemma lookup_insufficient:
  "fs (path_join (response_dir self) (str_int ra)) = Some ls \<Longrightarrow> hex_values ls = Inr vs \<Longrightarrow>
   int (length vs) < count \<Longrightarrow>
   validate_file_response self fs ra count =
     ([Log WARNING (InsufficientData ra count (length vs))], None)"
  by (simp add: validate_file_response_def)

lemma lookup_found:
  "fs (path_join (response_dir self) (str_int ra)) = Some ls \<Longrightarrow> hex_values ls = Inr vs \<Longrightarrow>
   count \<le> int (length vs) \<Longrightarrow>
   validate_file_response self fs ra count =
     ([Log INFO (RequestForRegister ra count (length vs))], Some (slice_to vs count))"
  by (simp add: validate_file_response_def)

lemma lookup_Some:
  assumes "snd (validate_file_response self fs ra count) = Some xs"
  shows "\<exists>ls vs. fs (path_join (response_dir self) (str_int ra)) = Some ls
           \<and> hex_values ls = Inr vs \<and> count \<le> int (length vs) \<and> xs = slice_to vs count"
  using assms
  by (auto simp: validate_file_response_def Let_def split: option.splits sum.splits if_splits)

lemma lookup_None_iff:
  "snd (validate_file_response self fs ra count) = None \<longleftrightarrow>
     (fs (path_join (response_dir self) (str_int ra)) = None
      \<or> (\<exists>ls. fs (path_join (response_dir self) (str_int ra)) = Some ls
            \<and> ((\<exists>e. hex_values ls = Inl e)
               \<or> (\<exists>vs. hex_values ls = Inr vs \<and> int (length vs) < count))))"
  by (auto simp: validate_file_response_def Let_def split: option.splits sum.splits if_splits)

lemma getValues_read_found:
  "fx = 3 \<or> fx = 4 \<Longrightarrow> validate_file_response self fs address count = (looked_up, Some vs) \<Longrightarrow>
   getValues fallback self fs fx address count =
     (if \<not> dummy_mode self then
        ([Log INFO (ReceivedRequest fx address count)] @ looked_up
           @ [Log INFO (FullResponse (format_modbus_response 1 fx vs))], ReturnValues vs)
      else
        ([Log INFO (ReceivedRequest fx address count)] @ looked_up
           @ [Log INFO (FullResponseNotSent (format_modbus_response 1 fx vs))], ReturnNone))"
  by (simp add: getValues_def Let_def)

lemma getValues_read_miss:
  "fx = 3 \<or> fx = 4 \<Longrightarrow> validate_file_response self fs address count = (looked_up, None) \<Longrightarrow>
   getValues fallback self fs fx address count =
     ([Log INFO (ReceivedRequest fx address count)] @ looked_up, ReturnNone)"
  by (simp add: getValues_def Let_def)

lemma getValues_other:
  "fx \<noteq> 3 \<Longrightarrow> fx \<noteq> 4 \<Longrightarrow>
   getValues fallback self fs fx address count =
     ([Log INFO (ReceivedRequest fx address count), SuperGetValues fx address count],
      ReturnSuper (fallback fx address count))"
  by (simp add: getValues_def Let_def)

lemma lookup_logs_no_super:
  "SuperGetValues a b c \<notin> set (fst (validate_file_response self fs ra count))"
  by (auto simp: validate_file_response_def Let_def split: option.splits sum.splits if_splits)

section \<open>The claims\<close>

text \<open>
  C2.  On every sequence of unsigned 8-bit bytes \<open>calculate_crc\<close> returns the value of
  the reference CRC16 of the specification (accumulator 0xFFFF, each byte XORed into the
  low 8 bits, then 8 shifts to the right with 0xA001 XORed in whenever the bit shifted
  out was set); it is a total function of the bytes, and on the empty sequence it
  returns 0xFFFF.
\<close>

theorem calculate_crc_reference:
  "calculate_crc (map uint bytes) = uint (crc16_reference bytes)
   \<and> calculate_crc [] = 0xFFFF"
  by (simp add: calculate_crc_uint) (simp add: calculate_crc_def)

end
